theory Spec2Isabelle
  imports Complex_Main
begin

section \<open>JavaScript values\<close>

text \<open>
  The engine's data context, the \<open>props\<close> and \<open>style\<close> bags of an element and the
  value of a template variable are untyped at run time (\<open>any\<close>).  They are modelled by
  a datatype of JavaScript values: the primitives, arrays, and plain objects as
  association lists of own properties in insertion order.  A JavaScript number is
  idealised as an exact rational, a signed infinity or NaN; rounding to double
  precision and negative zero are outside the model.  Strings are lists of 8-bit
  characters.  Functions, getters and properties inherited from a prototype are outside
  the model.
\<close>

datatype jsnum = NaN | Fin rat | PosInf | NegInf

datatype jsval =
    Undefined
  | Null
  | JBool bool
  | JNum jsnum
  | JStr string
  | JArr "jsval list"
  | JObj "(string \<times> jsval) list"

section \<open>Data model (engine/types)\<close>

text \<open>
  Geometry values (\<open>x\<close>, \<open>y\<close>, \<open>width\<close>, \<open>height\<close>, \<open>rotation\<close>, \<open>opacity\<close>)
  are JavaScript numbers idealised as reals.  \<open>zIndex\<close> and \<open>Layer.order\<close> are
  integers.  An optional field \<open>f?: T\<close> is a \<open>T option\<close>.
\<close>

record Position =
  pos_x :: real
  pos_y :: real
  anchor :: "string option"

record Dimensions =
  width :: real
  height :: real
  minWidth :: "real option"
  minHeight :: "real option"
  maxWidth :: "real option"
  maxHeight :: "real option"
  aspectLock :: "bool option"

record DataBinding =
  field :: string
  transform :: "string option"
  fallback :: "string option"
  formatTemplate :: "string option"

record ConditionalVisibility =
  cond_field :: string
  operator :: string
  cond_value :: jsval

datatype ElementType =
  ET_text | ET_image | ET_shape | ET_logo | ET_qrcode | ET_barcode | ET_container | ET_divider

record Layer =
  layer_id :: string
  layer_name :: string
  layer_visible :: bool
  layer_locked :: bool
  layer_opacity :: real
  layer_order :: int

text \<open>
  The \<open>props\<close> and \<open>style\<close> bags are objects of their own, keyed by name at run
  time.  The element record is parametric in how a bag is held: the bag itself (an
  association list) where elements are values, its address where the aliasing of
  objects matters.
\<close>

type_synonym bag = "(string \<times> jsval) list"

record 'b ElementOf =
  el_id :: string
  el_type :: ElementType
  el_name :: string
  layerId :: string
  position :: Position
  dimensions :: Dimensions
  rotation :: real
  zIndex :: int
  style :: 'b
  opacity :: real
  visible :: bool
  bindings :: "(string \<times> DataBinding) list option"
  condition :: "ConditionalVisibility option"
  locked :: bool
  selectable :: bool
  props :: 'b
  parentId :: "string option"
  children :: "string list option"

type_synonym TemplateElement = "bag ElementOf"

record TemplateMeta =
  meta_name :: string
  meta_description :: string
  category :: string
  tags :: "string list"
  author :: string
  createdAt :: string
  updatedAt :: string
  side :: string

record CanvasSettings =
  canvas_width :: real
  canvas_height :: real
  unit :: string
  dpi :: real
  layoutMode :: string
  canvas_gridSize :: real
  canvas_snapToGrid :: bool

record GradientDef =
  grad_type :: string
  angle :: real
  stops :: "(string \<times> real) list"

record PatternDef =
  pat_type :: string
  pat_size :: real
  pat_color :: string
  pat_opacity :: real
  svgData :: "string option"

record BackgroundSettings =
  bg_type :: string
  bg_color :: string
  gradient :: "GradientDef option"
  imageUrl :: "string option"
  pattern :: "PatternDef option"
  bg_opacity :: real

record TemplateVariable =
  var_name :: string
  var_type :: string
  var_value :: jsval
  var_label :: string
  var_description :: "string option"

record TemplateDocument =
  schemaVersion :: int
  doc_id :: string
  meta :: TemplateMeta
  canvas :: CanvasSettings
  background :: BackgroundSettings
  layers :: "Layer list"
  elements :: "TemplateElement list"
  doc_bindings :: "(string \<times> DataBinding) list"
  variables :: "TemplateVariable list"
  isReady :: bool

text \<open>
  \<open>Partial<T>\<close>: every key of \<open>T\<close> may be absent.  A key is either absent (\<open>None\<close>)
  or carries a value of the field's type; for a field that is itself optional the
  carried value may be \<open>undefined\<close> (\<open>Some None\<close>).
\<close>

record ElementChanges =
  ch_id :: "string option"
  ch_type :: "ElementType option"
  ch_name :: "string option"
  ch_layerId :: "string option"
  ch_position :: "Position option"
  ch_dimensions :: "Dimensions option"
  ch_rotation :: "real option"
  ch_zIndex :: "int option"
  ch_style :: "bag option"
  ch_opacity :: "real option"
  ch_visible :: "bool option"
  ch_bindings :: "(string \<times> DataBinding) list option option"
  ch_condition :: "ConditionalVisibility option option"
  ch_locked :: "bool option"
  ch_selectable :: "bool option"
  ch_props :: "bag option"
  ch_parentId :: "string option option"
  ch_children :: "string list option option"

record LayerChanges =
  lch_id :: "string option"
  lch_name :: "string option"
  lch_visible :: "bool option"
  lch_locked :: "bool option"
  lch_opacity :: "real option"
  lch_order :: "int option"

record BackgroundChanges =
  bch_type :: "string option"
  bch_color :: "string option"
  bch_gradient :: "GradientDef option option"
  bch_imageUrl :: "string option option"
  bch_pattern :: "PatternDef option option"
  bch_opacity :: "real option"

datatype ResizeHandle =
  H_top_left | H_top | H_top_right | H_left | H_right | H_bottom_left | H_bottom | H_bottom_right

record Offset =
  off_x :: real
  off_y :: real

record DragState =
  drag_elementId :: string
  drag_startPosition :: Position
  currentPosition :: Position
  offset :: Offset

record ResizeState =
  resize_elementId :: string
  handle :: ResizeHandle
  startDimensions :: Dimensions
  resize_startPosition :: Position
  currentDimensions :: Dimensions

record SelectionState =
  selectedIds :: "string list"
  hoveredId :: "string option"
  dragState :: "DragState option"
  resizeState :: "ResizeState option"

datatype EngineAction =
    SET_DOCUMENT TemplateDocument
  | UPDATE_ELEMENT string ElementChanges
  | MOVE_ELEMENT string Position
  | RESIZE_ELEMENT string Dimensions "Position option"
  | ADD_ELEMENT TemplateElement
  | REMOVE_ELEMENT string
  | DUPLICATE_ELEMENT string
  | REORDER_ELEMENT string int
  | SET_BACKGROUND BackgroundChanges
  | UPDATE_LAYER string LayerChanges
  | SELECT_ELEMENTS "string list"
  | HOVER_ELEMENT "string option"
  | START_DRAG DragState
  | UPDATE_DRAG Position
  | END_DRAG
  | START_RESIZE ResizeState
  | UPDATE_RESIZE Dimensions
  | END_RESIZE
  | UNDO
  | REDO
  | SET_VARIABLE string jsval
  | BATCH "EngineAction list"

section \<open>Object spread\<close>

text \<open>\<open>{ ...a, ...b }\<close>: the keys present in \<open>b\<close> override those of \<open>a\<close>.\<close>

definition over :: "'a \<Rightarrow> 'a option \<Rightarrow> 'a" where
  "over a b = (case b of None \<Rightarrow> a | Some v \<Rightarrow> v)"

definition spread_element :: "TemplateElement \<Rightarrow> ElementChanges \<Rightarrow> TemplateElement" where
  "spread_element el ch =
     \<lparr> el_id = over (el_id el) (ch_id ch),
       el_type = over (el_type el) (ch_type ch),
       el_name = over (el_name el) (ch_name ch),
       layerId = over (layerId el) (ch_layerId ch),
       position = over (position el) (ch_position ch),
       dimensions = over (dimensions el) (ch_dimensions ch),
       rotation = over (rotation el) (ch_rotation ch),
       zIndex = over (zIndex el) (ch_zIndex ch),
       style = over (style el) (ch_style ch),
       opacity = over (opacity el) (ch_opacity ch),
       visible = over (visible el) (ch_visible ch),
       bindings = over (bindings el) (ch_bindings ch),
       condition = over (condition el) (ch_condition ch),
       locked = over (locked el) (ch_locked ch),
       selectable = over (selectable el) (ch_selectable ch),
       props = over (props el) (ch_props ch),
       parentId = over (parentId el) (ch_parentId ch),
       children = over (children el) (ch_children ch) \<rparr>"

definition spread_layer :: "Layer \<Rightarrow> LayerChanges \<Rightarrow> Layer" where
  "spread_layer l ch =
     \<lparr> layer_id = over (layer_id l) (lch_id ch),
       layer_name = over (layer_name l) (lch_name ch),
       layer_visible = over (layer_visible l) (lch_visible ch),
       layer_locked = over (layer_locked l) (lch_locked ch),
       layer_opacity = over (layer_opacity l) (lch_opacity ch),
       layer_order = over (layer_order l) (lch_order ch) \<rparr>"

definition spread_background :: "BackgroundSettings \<Rightarrow> BackgroundChanges \<Rightarrow> BackgroundSettings" where
  "spread_background b ch =
     \<lparr> bg_type = over (bg_type b) (bch_type ch),
       bg_color = over (bg_color b) (bch_color ch),
       gradient = over (gradient b) (bch_gradient ch),
       imageUrl = over (imageUrl b) (bch_imageUrl ch),
       pattern = over (pattern b) (bch_pattern ch),
       bg_opacity = over (bg_opacity b) (bch_opacity ch) \<rparr>"

section \<open>Decimal rendering of integers\<close>

text \<open>Template literals \<open>`${n}`\<close> and \<open>String(n)\<close> print an integer in base ten.\<close>

definition digit_char :: "nat \<Rightarrow> char" where
  "digit_char d = ''0123456789'' ! (d mod 10)"

fun nat_to_string :: "nat \<Rightarrow> string" where
  "nat_to_string n =
     (if n < 10 then [digit_char n] else nat_to_string (n div 10) @ [digit_char (n mod 10)])"

declare nat_to_string.simps [simp del]

definition int_to_string :: "int \<Rightarrow> string" where
  "int_to_string i = (if i < 0 then CHR ''-'' # nat_to_string (nat (- i)) else nat_to_string (nat i))"

section \<open>JavaScript built-ins used by the engine\<close>

text \<open>\<open>String.prototype.includes\<close>, \<open>split\<close> on a one-character separator.\<close>

definition starts_with :: "string \<Rightarrow> string \<Rightarrow> bool" where
  "starts_with s p = (take (length p) s = p)"

fun str_includes :: "string \<Rightarrow> string \<Rightarrow> bool" where
  "str_includes [] sub = (sub = [])"
| "str_includes (c # cs) sub = (starts_with (c # cs) sub \<or> str_includes cs sub)"

fun split_on :: "char \<Rightarrow> string \<Rightarrow> string list" where
  "split_on d [] = [[]]"
| "split_on d (c # cs) =
     (if c = d then [] # split_on d cs
      else (case split_on d cs of [] \<Rightarrow> [[c]] | w # ws \<Rightarrow> (c # w) # ws))"

text \<open>
  \<open>String(n)\<close> for a number.  An integer prints in base ten, a fraction prints its
  decimal expansion (at most twenty fractional digits).  JavaScript's exponent
  notation, used for magnitudes of at least \<open>1e21\<close> or below \<open>1e-6\<close>, is outside
  the model.
\<close>

fun frac_digits :: "nat \<Rightarrow> nat \<Rightarrow> nat \<Rightarrow> string" where
  "frac_digits 0 r q = []"
| "frac_digits (Suc fuel) r q =
     (if r = 0 then [] else digit_char ((r * 10) div q) # frac_digits fuel ((r * 10) mod q) q)"

definition rat_to_string :: "rat \<Rightarrow> string" where
  "rat_to_string r =
     (let (p, q) = quotient_of r;
          n = nat \<bar>p\<bar>; d = nat q;
          body = nat_to_string (n div d) @
                 (if n mod d = 0 then [] else CHR ''.'' # frac_digits 20 (n mod d) d)
      in if p < 0 then CHR ''-'' # body else body)"

fun num_to_string :: "jsnum \<Rightarrow> string" where
  "num_to_string NaN = ''NaN''"
| "num_to_string PosInf = ''Infinity''"
| "num_to_string NegInf = ''-Infinity''"
| "num_to_string (Fin r) = rat_to_string r"

text \<open>\<open>Array.prototype.join\<close> with the default separator.\<close>

fun join_comma :: "string list \<Rightarrow> string" where
  "join_comma [] = []"
| "join_comma [s] = s"
| "join_comma (s # t # ss) = s @ '','' @ join_comma (t # ss)"

text \<open>\<open>String(value)\<close>.\<close>

fun to_string :: "jsval \<Rightarrow> string" where
  "to_string Undefined = ''undefined''"
| "to_string Null = ''null''"
| "to_string (JBool b) = (if b then ''true'' else ''false'')"
| "to_string (JNum n) = num_to_string n"
| "to_string (JStr s) = s"
| "to_string (JArr xs) =
     join_comma (map (\<lambda>v. if v = Undefined \<or> v = Null then [] else to_string v) xs)"
| "to_string (JObj ps) = ''[object Object]''"

text \<open>
  \<open>Number(string)\<close>: surrounding white space is dropped, the empty string is 0, and the
  rest must be a numeric literal (a signed decimal with optional fraction and exponent,
  a signed \<open>Infinity\<close>, or an unsigned hexadecimal, octal or binary integer); anything
  else is NaN.  The value is the literal's exact value.  White space is the ASCII white
  space and line terminators.
\<close>

definition is_space :: "char \<Rightarrow> bool" where
  "is_space c = (c \<in> set [CHR 0x09, CHR 0x0A, CHR 0x0B, CHR 0x0C, CHR 0x0D, CHR '' ''])"

definition trim :: "string \<Rightarrow> string" where
  "trim s = rev (dropWhile is_space (rev (dropWhile is_space s)))"

definition digit_value :: "char \<Rightarrow> nat option" where
  "digit_value c = map_of (zip ''0123456789abcdef'' [0 ..< 16] @ zip ''ABCDEF'' [10 ..< 16]) c"

definition is_digit_in :: "nat \<Rightarrow> char \<Rightarrow> bool" where
  "is_digit_in base c = (case digit_value c of None \<Rightarrow> False | Some v \<Rightarrow> v < base)"

definition digits_value :: "nat \<Rightarrow> string \<Rightarrow> nat" where
  "digits_value base ds = foldl (\<lambda>a c. a * base + (case digit_value c of None \<Rightarrow> 0 | Some v \<Rightarrow> v)) 0 ds"


definition pow10 :: "int \<Rightarrow> rat" where
  "pow10 e = (if 0 \<le> e then 10 ^ nat e else 1 / 10 ^ nat (- e))"

definition parse_sign :: "string \<Rightarrow> bool \<times> string" where
  "parse_sign s =
     (case s of
        c # cs \<Rightarrow> if c = CHR ''-'' then (True, cs) else if c = CHR ''+'' then (False, cs) else (False, s)
      | [] \<Rightarrow> (False, s))"

definition parse_exponent :: "string \<Rightarrow> int option" where
  "parse_exponent s =
     (case s of
        [] \<Rightarrow> Some 0
      | c # cs \<Rightarrow>
          if c = CHR ''e'' \<or> c = CHR ''E'' then
            (let (neg, ds) = parse_sign cs in
             if ds \<noteq> [] \<and> list_all (is_digit_in 10) ds
             then Some (if neg then - int (digits_value 10 ds) else int (digits_value 10 ds))
             else None)
          else None)"

definition parse_unsigned_decimal :: "string \<Rightarrow> jsnum" where
  "parse_unsigned_decimal s =
     (if s = ''Infinity'' then PosInf
      else
        let ip = takeWhile (is_digit_in 10) s;
            r1 = dropWhile (is_digit_in 10) s;
            fp = (case r1 of c # cs \<Rightarrow> if c = CHR ''.'' then takeWhile (is_digit_in 10) cs else []
                  | [] \<Rightarrow> []);
            r2 = (case r1 of c # cs \<Rightarrow> if c = CHR ''.'' then dropWhile (is_digit_in 10) cs else r1
                  | [] \<Rightarrow> [])
        in if ip = [] \<and> fp = [] then NaN
           else (case parse_exponent r2 of
                   None \<Rightarrow> NaN
                 | Some e \<Rightarrow>
                     Fin ((of_nat (digits_value 10 ip) +
                           of_nat (digits_value 10 fp) / 10 ^ length fp) * pow10 e)))"

definition parse_radix :: "nat \<Rightarrow> string \<Rightarrow> jsnum" where
  "parse_radix base ds =
     (if ds \<noteq> [] \<and> list_all (is_digit_in base) ds then Fin (of_nat (digits_value base ds)) else NaN)"

fun negate :: "jsnum \<Rightarrow> jsnum" where
  "negate NaN = NaN"
| "negate (Fin r) = Fin (- r)"
| "negate PosInf = NegInf"
| "negate NegInf = PosInf"

definition string_to_number :: "string \<Rightarrow> jsnum" where
  "string_to_number s0 =
     (let s = trim s0 in
      if s = [] then Fin 0
      else if take 2 s = ''0x'' \<or> take 2 s = ''0X'' then parse_radix 16 (drop 2 s)
      else if take 2 s = ''0o'' \<or> take 2 s = ''0O'' then parse_radix 8 (drop 2 s)
      else if take 2 s = ''0b'' \<or> take 2 s = ''0B'' then parse_radix 2 (drop 2 s)
      else let (neg, r) = parse_sign s in
           if neg then negate (parse_unsigned_decimal r) else parse_unsigned_decimal r)"

text \<open>
  \<open>Number(value)\<close>.  An array or object is first turned into a string, as
  \<open>ToPrimitive\<close> does for plain arrays and objects.
\<close>

fun to_number :: "jsval \<Rightarrow> jsnum" where
  "to_number Undefined = NaN"
| "to_number Null = Fin 0"
| "to_number (JBool b) = (if b then Fin 1 else Fin 0)"
| "to_number (JNum n) = n"
| "to_number (JStr s) = string_to_number s"
| "to_number (JArr xs) = string_to_number (to_string (JArr xs))"
| "to_number (JObj ps) = string_to_number (to_string (JObj ps))"

text \<open>\<open>a < b\<close> on numbers: false as soon as one side is NaN.\<close>

fun num_lt :: "jsnum \<Rightarrow> jsnum \<Rightarrow> bool" where
  "num_lt (Fin a) (Fin b) = (a < b)"
| "num_lt (Fin a) PosInf = True"
| "num_lt NegInf (Fin b) = True"
| "num_lt NegInf PosInf = True"
| "num_lt a b = False"

text \<open>
  \<open>a === b\<close>.  NaN differs from itself.  Arrays and objects are compared by
  reference; the two operands of the engine's comparison are a value read from the
  data context and a literal of the template, never the same object, hence \<open>False\<close>.
\<close>

fun strict_eq :: "jsval \<Rightarrow> jsval \<Rightarrow> bool" where
  "strict_eq Undefined Undefined = True"
| "strict_eq Null Null = True"
| "strict_eq (JBool a) (JBool b) = (a = b)"
| "strict_eq (JNum a) (JNum b) = (a \<noteq> NaN \<and> a = b)"
| "strict_eq (JStr a) (JStr b) = (a = b)"
| "strict_eq a b = False"

text \<open>
  \<open>acc[key]\<close>.  Reading a property of \<open>undefined\<close> or \<open>null\<close> throws a TypeError.
  An object yields its own property or \<open>undefined\<close>; an array or a string yields its
  length or the element at a canonical index; other primitives yield \<open>undefined\<close>.
\<close>

datatype js_error = TypeError

definition array_index :: "string \<Rightarrow> nat option" where
  "array_index k =
     (if k \<noteq> [] \<and> list_all (is_digit_in 10) k \<and> (k = ''0'' \<or> hd k \<noteq> CHR ''0'')
      then Some (digits_value 10 k) else None)"

fun get_prop :: "jsval \<Rightarrow> string \<Rightarrow> js_error + jsval" where
  "get_prop Undefined k = Inl TypeError"
| "get_prop Null k = Inl TypeError"
| "get_prop (JBool b) k = Inr Undefined"
| "get_prop (JNum n) k = Inr Undefined"
| "get_prop (JStr s) k =
     Inr (if k = ''length'' then JNum (Fin (of_nat (length s)))
          else (case array_index k of
                  None \<Rightarrow> Undefined
                | Some i \<Rightarrow> if i < length s then JStr [s ! i] else Undefined))"
| "get_prop (JArr xs) k =
     Inr (if k = ''length'' then JNum (Fin (of_nat (length xs)))
          else (case array_index k of
                  None \<Rightarrow> Undefined
                | Some i \<Rightarrow> if i < length xs then xs ! i else Undefined))"
| "get_prop (JObj ps) k = Inr (case map_of ps k of None \<Rightarrow> Undefined | Some v \<Rightarrow> v)"




section \<open>Document reducer (TemplateContext)\<close>

record DocumentState =
  document :: TemplateDocument
  history :: "TemplateDocument list"
  future :: "TemplateDocument list"

text \<open>
  \<open>state.history.slice(-MAX_HISTORY)\<close> keeps the last 50 entries (all of them when
  there are fewer); the newest entry of the undo stack is its last element.
\<close>

definition MAX_HISTORY :: nat where
  "MAX_HISTORY = 50"

definition slice_last :: "nat \<Rightarrow> 'a list \<Rightarrow> 'a list" where
  "slice_last n xs = drop (length xs - n) xs"

definition pushHistory :: "DocumentState \<Rightarrow> TemplateDocument \<Rightarrow> DocumentState" where
  "pushHistory state newDoc =
     \<lparr> document = newDoc,
       history = slice_last MAX_HISTORY (history state) @ [document state],
       future = [] \<rparr>"

text \<open>
  \<open>DUPLICATE_ELEMENT\<close> reads the clock (\<open>Date.now()\<close>) to build the id of the copy.
  The reading is the parameter \<open>now\<close> of the reducer; no property below depends on
  its value.
\<close>

definition duplicate_of :: "int \<Rightarrow> TemplateElement \<Rightarrow> TemplateElement" where
  "duplicate_of now original =
     original\<lparr> el_id := el_id original @ ''_copy_'' @ int_to_string now,
               el_name := el_name original @ '' (copy)'',
               position := (position original)\<lparr> pos_x := pos_x (position original) + 10,
                                                 pos_y := pos_y (position original) + 10 \<rparr> \<rparr>"

fun documentReducer :: "int \<Rightarrow> DocumentState \<Rightarrow> EngineAction \<Rightarrow> DocumentState" where
  "documentReducer now state (SET_DOCUMENT d) =
     \<lparr> document = d, history = [], future = [] \<rparr>"
| "documentReducer now state (UPDATE_ELEMENT i changes) =
     (let doc = document state in
      pushHistory state
        (doc\<lparr> elements := map (\<lambda>el. if el_id el = i then spread_element el changes else el)
                                 (elements doc) \<rparr>))"
| "documentReducer now state (MOVE_ELEMENT i p) =
     (let doc = document state in
      pushHistory state
        (doc\<lparr> elements := map (\<lambda>el. if el_id el = i then el\<lparr> position := p \<rparr> else el)
                                 (elements doc) \<rparr>))"
| "documentReducer now state (RESIZE_ELEMENT i d p) =
     (let doc = document state in
      pushHistory state
        (doc\<lparr> elements :=
                 map (\<lambda>el. if el_id el = i
                            then (case p of None \<Rightarrow> el\<lparr> dimensions := d \<rparr>
                                  | Some q \<Rightarrow> el\<lparr> dimensions := d, position := q \<rparr>)
                            else el)
                     (elements doc) \<rparr>))"
| "documentReducer now state (ADD_ELEMENT e) =
     (let doc = document state in
      pushHistory state (doc\<lparr> elements := elements doc @ [e] \<rparr>))"
| "documentReducer now state (REMOVE_ELEMENT i) =
     (let doc = document state in
      pushHistory state (doc\<lparr> elements := filter (\<lambda>el. el_id el \<noteq> i) (elements doc) \<rparr>))"
| "documentReducer now state (DUPLICATE_ELEMENT i) =
     (let doc = document state in
      case find (\<lambda>el. el_id el = i) (elements doc) of
        None \<Rightarrow> state
      | Some original \<Rightarrow>
          pushHistory state (doc\<lparr> elements := elements doc @ [duplicate_of now original] \<rparr>))"
| "documentReducer now state (REORDER_ELEMENT i z) =
     (let doc = document state in
      pushHistory state
        (doc\<lparr> elements := map (\<lambda>el. if el_id el = i then el\<lparr> zIndex := z \<rparr> else el)
                                 (elements doc) \<rparr>))"
| "documentReducer now state (SET_BACKGROUND changes) =
     (let doc = document state in
      pushHistory state (doc\<lparr> background := spread_background (background doc) changes \<rparr>))"
| "documentReducer now state (UPDATE_LAYER i changes) =
     (let doc = document state in
      pushHistory state
        (doc\<lparr> layers := map (\<lambda>l. if layer_id l = i then spread_layer l changes else l)
                               (layers doc) \<rparr>))"
| "documentReducer now state (SET_VARIABLE n v) =
     (let doc = document state in
      pushHistory state
        (doc\<lparr> variables := map (\<lambda>x. if var_name x = n then x\<lparr> var_value := v \<rparr> else x)
                                  (variables doc) \<rparr>))"
| "documentReducer now state UNDO =
     (if length (history state) = 0 then state
      else \<lparr> document = last (history state),
             history = butlast (history state),
             future = document state # future state \<rparr>)"
| "documentReducer now state REDO =
     (if length (future state) = 0 then state
      else \<lparr> document = hd (future state),
             history = history state @ [document state],
             future = tl (future state) \<rparr>)"
| "documentReducer now state (BATCH actions) = foldl (documentReducer now) state actions"
| "documentReducer now state _ = state"

section \<open>Selection reducer\<close>

fun selectionReducer :: "SelectionState \<Rightarrow> EngineAction \<Rightarrow> SelectionState" where
  "selectionReducer state (SELECT_ELEMENTS ids) = state\<lparr> selectedIds := ids \<rparr>"
| "selectionReducer state (HOVER_ELEMENT h) = state\<lparr> hoveredId := h \<rparr>"
| "selectionReducer state (START_DRAG d) = state\<lparr> dragState := Some d \<rparr>"
| "selectionReducer state (UPDATE_DRAG p) =
     (case dragState state of
        None \<Rightarrow> state
      | Some d \<Rightarrow> state\<lparr> dragState := Some (d\<lparr> currentPosition := p \<rparr>) \<rparr>)"
| "selectionReducer state END_DRAG = state\<lparr> dragState := None \<rparr>"
| "selectionReducer state (START_RESIZE r) = state\<lparr> resizeState := Some r \<rparr>"
| "selectionReducer state (UPDATE_RESIZE d) =
     (case resizeState state of
        None \<Rightarrow> state
      | Some r \<Rightarrow> state\<lparr> resizeState := Some (r\<lparr> currentDimensions := d \<rparr>) \<rparr>)"
| "selectionReducer state END_RESIZE = state\<lparr> resizeState := None \<rparr>"
| "selectionReducer state _ = state"

text \<open>The selection state a \<open>TemplateProvider\<close> starts from.\<close>

definition initialSelection :: SelectionState where
  "initialSelection = \<lparr> selectedIds = [], hoveredId = None, dragState = None, resizeState = None \<rparr>"

section \<open>Binding resolver\<close>

text \<open>
  The transform registry is module state (\<open>const transforms = new Map()\<close>), filled by
  \<open>registerTransform\<close>; the resolver reads it.  It is passed to the functions that read
  it.  A transform is a function of the value and the data context.
\<close>

type_synonym TransformFn = "jsval \<Rightarrow> jsval \<Rightarrow> jsval"

type_synonym registry = "string \<rightharpoonup> TransformFn"


definition getTransform :: "registry \<Rightarrow> string \<Rightarrow> TransformFn option" where
  "getTransform transforms name = transforms name"

text \<open>
  \<open>path.split('.').reduce(...)\<close> from \<open>obj\<close>.  A TypeError thrown by a property read
  would abort the reduction.
\<close>

definition getNestedValue :: "jsval \<Rightarrow> string \<Rightarrow> js_error + jsval" where
  "getNestedValue obj path =
     (if path = [] then Inr Undefined
      else foldl (\<lambda>acc key.
                    case acc of
                      Inl e \<Rightarrow> Inl e
                    | Inr a \<Rightarrow> if a = Undefined \<or> a = Null then Inr Undefined else get_prop a key)
                 (Inr obj) (split_on CHR ''.'' path))"








definition evaluateCondition :: "ConditionalVisibility \<Rightarrow> jsval \<Rightarrow> js_error + bool" where
  "evaluateCondition cond data =
     (case getNestedValue data (cond_field cond) of
        Inl e \<Rightarrow> Inl e
      | Inr v \<Rightarrow>
          Inr (if operator cond = ''exists'' then v \<noteq> Undefined \<and> v \<noteq> Null \<and> v \<noteq> JStr []
               else if operator cond = ''notExists'' then v = Undefined \<or> v = Null \<or> v = JStr []
               else if operator cond = ''equals'' then strict_eq v (cond_value cond)
               else if operator cond = ''notEquals'' then \<not> strict_eq v (cond_value cond)
               else if operator cond = ''gt'' then num_lt (to_number (cond_value cond)) (to_number v)
               else if operator cond = ''lt'' then num_lt (to_number v) (to_number (cond_value cond))
               else if operator cond = ''contains''
                 then str_includes (to_string v) (to_string (cond_value cond))
               else True))"



section \<open>Layer manager\<close>

text \<open>\<open>layerMap.set(layer.id, layer)\<close> for every layer in turn: a later layer wins.\<close>

definition layerMap :: "Layer list \<Rightarrow> (string \<rightharpoonup> Layer)" where
  "layerMap ls = foldl (\<lambda>m layer. m(layer_id layer \<mapsto> layer)) Map.empty ls"

text \<open>A \<open>filter\<close> whose callback may throw.\<close>

fun filter_checked :: "('a \<Rightarrow> js_error + bool) \<Rightarrow> 'a list \<Rightarrow> js_error + 'a list" where
  "filter_checked p [] = Inr []"
| "filter_checked p (x # xs) =
     (case p x of
        Inl e \<Rightarrow> Inl e
      | Inr keep \<Rightarrow>
          (case filter_checked p xs of
             Inl e \<Rightarrow> Inl e
           | Inr ys \<Rightarrow> Inr (if keep then x # ys else ys)))"

text \<open>
  The comparator of the sort subtracts the composite keys
  \<open>(layer?.order ?? 0) * 1000 + zIndex\<close>.  \<open>Array.prototype.sort\<close> is stable, and so is
  \<open>sort_key\<close>.
\<close>

definition composite_key :: "(string \<rightharpoonup> Layer) \<Rightarrow> TemplateElement \<Rightarrow> int" where
  "composite_key m a =
     (case m (layerId a) of None \<Rightarrow> 0 | Some layer \<Rightarrow> layer_order layer) * 1000 + zIndex a"

text \<open>The order of the layer an element resolves to, 0 when the reference is unresolvable.\<close>

definition resolved_order :: "(string \<rightharpoonup> Layer) \<Rightarrow> TemplateElement \<Rightarrow> int" where
  "resolved_order m a = (case m (layerId a) of None \<Rightarrow> 0 | Some layer \<Rightarrow> layer_order layer)"

definition getOrderedElements ::
  "TemplateElement list \<Rightarrow> Layer list \<Rightarrow> jsval \<Rightarrow> js_error + TemplateElement list" where
  "getOrderedElements els ls data =
     (let m = layerMap ls;
          step1 = filter (\<lambda>el. case m (layerId el) of None \<Rightarrow> True | Some layer \<Rightarrow> layer_visible layer) els;
          step2 = filter visible step1
      in case filter_checked (\<lambda>el. case condition el of
                                       None \<Rightarrow> Inr True
                                     | Some c \<Rightarrow> evaluateCondition c data) step2 of
           Inl e \<Rightarrow> Inl e
         | Inr step3 \<Rightarrow> Inr (sort_key (composite_key m) step3))"

section \<open>Resize gesture (useElementInteraction)\<close>

record ResizeStart =
  rs_handle :: ResizeHandle
  rs_mouseX :: real
  rs_mouseY :: real
  rs_elX :: real
  rs_elY :: real
  rs_elW :: real
  rs_elH :: real
  rs_aspectLock :: bool

record EngineConfig =
  mode :: string
  scale :: real
  snapToGrid :: bool
  gridSize :: real
  showHandles :: bool
  showGrid :: bool
  enableKeyboard :: bool
  updateDebounce :: real

definition DEFAULT_ENGINE_CONFIG :: EngineConfig where
  "DEFAULT_ENGINE_CONFIG =
     \<lparr> mode = ''preview'', scale = 1, snapToGrid = False, gridSize = 5, showHandles = True,
       showGrid = False, enableKeyboard = True, updateDebounce = 16 \<rparr>"

fun handle_name :: "ResizeHandle \<Rightarrow> string" where
  "handle_name H_top_left = ''top-left''"
| "handle_name H_top = ''top''"
| "handle_name H_top_right = ''top-right''"
| "handle_name H_left = ''left''"
| "handle_name H_right = ''right''"
| "handle_name H_bottom_left = ''bottom-left''"
| "handle_name H_bottom = ''bottom''"
| "handle_name H_bottom_right = ''bottom-right''"

text \<open>\<open>Math.round\<close>: the nearest integer, a half rounding up.\<close>

definition Math_round :: "real \<Rightarrow> real" where
  "Math_round x = of_int \<lfloor>x + 1 / 2\<rfloor>"

text \<open>
  The resize branch of \<open>handleMouseMove\<close>: the dimensions dispatched with
  \<open>UPDATE_RESIZE\<close> and remembered in \<open>lastResizeDims\<close>, which \<open>handleMouseUp\<close> commits
  with \<open>RESIZE_ELEMENT\<close>.  The result is the pair (width, height).  A division by
  zero (a scale or a start height of 0) gives an infinity or NaN in JavaScript and is
  outside the model.
\<close>

definition resize_dims :: "ResizeStart \<Rightarrow> EngineConfig \<Rightarrow> real \<Rightarrow> real \<Rightarrow> real \<times> real" where
  "resize_dims rs config clientX clientY =
     (let dx = (clientX - rs_mouseX rs) / scale config;
          dy = (clientY - rs_mouseY rs) / scale config;
          h = handle_name (rs_handle rs);
          w1 = (if str_includes h ''right'' then max 10 (rs_elW rs + dx) else rs_elW rs);
          w2 = (if str_includes h ''left'' then max 10 (rs_elW rs - dx) else w1);
          h1 = (if str_includes h ''bottom'' then max 10 (rs_elH rs + dy) else rs_elH rs);
          h2 = (if str_includes h ''top'' then max 10 (rs_elH rs - dy) else h1);
          ratio = rs_elW rs / rs_elH rs;
          w3 = (if rs_aspectLock rs \<and> \<not> \<bar>dx\<bar> > \<bar>dy\<bar> then h2 * ratio else w2);
          h3 = (if rs_aspectLock rs \<and> \<bar>dx\<bar> > \<bar>dy\<bar> then w2 / ratio else h2);
          snap = (snapToGrid config \<and> gridSize config > 0);
          w4 = (if snap then Math_round (w3 / gridSize config) * gridSize config else w3);
          h4 = (if snap then Math_round (h3 / gridSize config) * gridSize config else h3)
      in (w4, h4))"

section \<open>applyBindingsToElement on a store of objects\<close>













section \<open>Vocabulary for statements about the undo history\<close>

text \<open>
  An action is history-pushing in a state when the reducer's branch for it returns
  through \<open>pushHistory\<close>: the ten document-editing actions, \<open>DUPLICATE_ELEMENT\<close> only
  when the element is found.
\<close>

fun pushes_history :: "DocumentState \<Rightarrow> EngineAction \<Rightarrow> bool" where
  "pushes_history s (UPDATE_ELEMENT i c) = True"
| "pushes_history s (MOVE_ELEMENT i p) = True"
| "pushes_history s (RESIZE_ELEMENT i d p) = True"
| "pushes_history s (ADD_ELEMENT e) = True"
| "pushes_history s (REMOVE_ELEMENT i) = True"
| "pushes_history s (DUPLICATE_ELEMENT i) =
     (find (\<lambda>el. el_id el = i) (elements (document s)) \<noteq> None)"
| "pushes_history s (REORDER_ELEMENT i z) = True"
| "pushes_history s (SET_BACKGROUND c) = True"
| "pushes_history s (UPDATE_LAYER i c) = True"
| "pushes_history s (SET_VARIABLE n v) = True"
| "pushes_history s _ = False"

text \<open>
  A run of committed actions: every action of the list is history-pushing in the state
  it is dispatched in.  \<open>pre_docs\<close> lists the document current before each action.
\<close>

fun committed_run :: "int \<Rightarrow> DocumentState \<Rightarrow> EngineAction list \<Rightarrow> bool" where
  "committed_run now s [] = True"
| "committed_run now s (a # as) =
     (pushes_history s a \<and> committed_run now (documentReducer now s a) as)"

fun pre_docs :: "int \<Rightarrow> DocumentState \<Rightarrow> EngineAction list \<Rightarrow> TemplateDocument list" where
  "pre_docs now s [] = []"
| "pre_docs now s (a # as) = document s # pre_docs now (documentReducer now s a) as"


text \<open>One push onto the undo stack, as \<open>pushHistory\<close> does it to \<open>state.history\<close>.\<close>

definition push_entry :: "TemplateDocument list \<Rightarrow> TemplateDocument \<Rightarrow> TemplateDocument list" where
  "push_entry h d = slice_last MAX_HISTORY h @ [d]"

section \<open>Concrete inputs\<close>

text \<open>Documents, elements, bindings and stores used as concrete inputs.\<close>

definition ex_element :: "string \<Rightarrow> TemplateElement" where
  "ex_element i =
     \<lparr> el_id = i, el_type = ET_text, el_name = ''text element'', layerId = ''default'',
       position = \<lparr> pos_x = 0, pos_y = 0, anchor = None \<rparr>,
       dimensions = \<lparr> width = 100, height = 40, minWidth = None, minHeight = None,
                      maxWidth = None, maxHeight = None, aspectLock = None \<rparr>,
       rotation = 0, zIndex = 0, style = [], opacity = 1, visible = True,
       bindings = None, condition = None, locked = False, selectable = True,
       props = [(''content'', JStr ''Name'')], parentId = None, children = None \<rparr>"

definition ex_document :: "TemplateElement list \<Rightarrow> TemplateDocument" where
  "ex_document es =
     \<lparr> schemaVersion = 1, doc_id = ''doc_0'',
       meta = \<lparr> meta_name = ''Untitled'', meta_description = [], category = ''general'',
                tags = [], author = [], createdAt = [], updatedAt = [], side = ''single'' \<rparr>,
       canvas = \<lparr> canvas_width = 320, canvas_height = 200, unit = ''px'', dpi = 300,
                  layoutMode = ''absolute'', canvas_gridSize = 5, canvas_snapToGrid = False \<rparr>,
       background = \<lparr> bg_type = ''solid'', bg_color = ''#ffffff'', gradient = None,
                      imageUrl = None, pattern = None, bg_opacity = 1 \<rparr>,
       layers = [\<lparr> layer_id = ''default'', layer_name = ''Layer 1'', layer_visible = True,
                   layer_locked = False, layer_opacity = 1, layer_order = 0 \<rparr>],
       elements = es, doc_bindings = [], variables = [], isReady = True \<rparr>"

definition ex_position :: Position where
  "ex_position = \<lparr> pos_x = 15, pos_y = 25, anchor = None \<rparr>"

definition ex_dimensions :: Dimensions where
  "ex_dimensions = \<lparr> width = 120, height = 60, minWidth = None, minHeight = None,
                      maxWidth = None, maxHeight = None, aspectLock = None \<rparr>"



definition ex_changes :: ElementChanges where
  "ex_changes = \<lparr> ch_id = None, ch_type = None, ch_name = Some ''renamed'', ch_layerId = None,
       ch_position = None, ch_dimensions = None, ch_rotation = None, ch_zIndex = None,
       ch_style = None, ch_opacity = None, ch_visible = None, ch_bindings = None,
       ch_condition = None, ch_locked = None, ch_selectable = None, ch_props = None,
       ch_parentId = None, ch_children = None \<rparr>"

definition ex_redo_state :: DocumentState where
  "ex_redo_state = \<lparr> document = ex_document [ex_element ''a''], history = [],
                     future = [ex_document [ex_element ''a'', ex_element ''b'']] \<rparr>"

definition ex_pushed_state :: DocumentState where
  "ex_pushed_state = \<lparr> document = document ex_redo_state, history = [document ex_redo_state],
                        future = [] \<rparr>"

definition ex_resize_start :: ResizeStart where
  "ex_resize_start =
     \<lparr> rs_handle = H_right, rs_mouseX = 0, rs_mouseY = 0, rs_elX = 0, rs_elY = 0,
       rs_elW = 100, rs_elH = 50, rs_aspectLock = True \<rparr>"

definition ex_layers :: "Layer list" where
  "ex_layers =
     [\<lparr> layer_id = ''back'', layer_name = ''Back'', layer_visible = True, layer_locked = False,
        layer_opacity = 1, layer_order = 0 \<rparr>,
      \<lparr> layer_id = ''front'', layer_name = ''Front'', layer_visible = True, layer_locked = False,
        layer_opacity = 1, layer_order = 1 \<rparr>]"

definition ex_on_layer :: "string \<Rightarrow> string \<Rightarrow> int \<Rightarrow> TemplateElement" where
  "ex_on_layer i l z = (ex_element i)\<lparr> layerId := l, zIndex := z \<rparr>"

definition ex_unordered :: "TemplateElement list" where
  "ex_unordered = [ex_on_layer ''b'' ''front'' 0, ex_on_layer ''a'' ''back'' 5]"












section \<open>Properties of the document reducer\<close>

lemma length_slice_last: "length (slice_last n xs) = min n (length xs)"
  by (simp add: slice_last_def)

lemma slice_last_short: "length xs \<le> n \<Longrightarrow> slice_last n xs = xs"
  by (simp add: slice_last_def)

lemma pushHistory_sel:
  "document (pushHistory s d) = d"
  "history (pushHistory s d) = push_entry (history s) (document s)"
  "future (pushHistory s d) = []"
  by (simp_all add: pushHistory_def push_entry_def)

lemma push_step_history:
  "pushes_history s a \<Longrightarrow>
   history (documentReducer now s a) = push_entry (history s) (document s)"
  by (cases a) (auto simp add: pushHistory_sel Let_def split: option.split)


lemma run_history:
  "committed_run now s as \<Longrightarrow>
   history (foldl (documentReducer now) s as) = foldl push_entry (history s) (pre_docs now s as)"
proof (induction as arbitrary: s)
  case Nil
  then show ?case by simp
next
  case (Cons a as)
  then show ?case by (simp add: push_step_history)
qed

lemma length_pre_docs: "length (pre_docs now s as) = length as"
  by (induction as arbitrary: s) simp_all

lemma foldl_push_entry_room:
  "length h + length ds \<le> Suc MAX_HISTORY \<Longrightarrow> foldl push_entry h ds = h @ ds"
proof (induction ds arbitrary: h)
  case Nil
  then show ?case by simp
next
  case (Cons d ds)
  have "push_entry h d = h @ [d]"
    using Cons.prems by (simp add: push_entry_def slice_last_short)
  moreover have "length (h @ [d]) + length ds \<le> Suc MAX_HISTORY"
    using Cons.prems by simp
  ultimately show ?case
    using Cons.IH [of "h @ [d]"] by simp
qed






lemma hd_pre_docs: "as \<noteq> [] \<Longrightarrow> hd (pre_docs now s as) = document s"
  by (cases as) simp_all



section \<open>Undo and redo\<close>



section \<open>Batches\<close>



lemma committed_run_replicate_add:
  "committed_run now s (replicate n (ADD_ELEMENT e))"
  by (induction n arbitrary: s) simp_all

lemma stale_map_id:
  "\<forall>el \<in> set es. el_id el \<noteq> i \<Longrightarrow> map (\<lambda>el. if el_id el = i then f el else el) es = es"
  by (induction es) simp_all

lemma stale_filter_id:
  "\<forall>el \<in> set es. el_id el \<noteq> i \<Longrightarrow> filter (\<lambda>el. el_id el \<noteq> i) es = es"
  by (induction es) simp_all

lemma stale_find:
  "\<forall>el \<in> set es. el_id el \<noteq> i \<Longrightarrow> find (\<lambda>el. el_id el = i) es = None"
  by (induction es) simp_all

section \<open>The history cap\<close>

text \<open>
  Claim C3 says that after every history-pushing action the history stack holds at most
  50 entries.  \<open>pushHistory\<close> keeps the last 50 entries and then appends the
  pre-change document, so the stack reaches 51 entries: after 51 \<open>ADD_ELEMENT\<close>
  actions dispatched from a fresh state, and after one \<open>ADD_ELEMENT\<close> dispatched in
  any state whose history holds 50 entries.
\<close>

theorem history_cap_exceeded:
  "length (history (foldl (documentReducer now) \<lparr> document = d, history = [], future = [] \<rparr>
                      (replicate 51 (ADD_ELEMENT e)))) = 51 \<and>
   length (history (documentReducer now
                      \<lparr> document = d, history = replicate 50 d', future = [] \<rparr> (ADD_ELEMENT e))) = 51"
proof
  let ?s = "\<lparr> document = d, history = [], future = [] \<rparr>"
  let ?as = "replicate 51 (ADD_ELEMENT e)"
  have "length (history ?s) + length (pre_docs now ?s ?as) \<le> Suc MAX_HISTORY"
    by (simp add: length_pre_docs MAX_HISTORY_def)
  from foldl_push_entry_room [OF this] run_history [OF committed_run_replicate_add, of now ?s 51 e]
  have "history (foldl (documentReducer now) ?s ?as) = pre_docs now ?s ?as"
    by simp
  then show "length (history (foldl (documentReducer now) ?s ?as)) = 51"
    by (simp add: length_pre_docs)
next
  show "length (history (documentReducer now
                      \<lparr> document = d, history = replicate 50 d', future = [] \<rparr> (ADD_ELEMENT e))) = 51"
    by (simp add: pushHistory_def slice_last_def MAX_HISTORY_def)
qed

lemma stale_id_effect:
  assumes "\<forall>el \<in> set (elements (document s)). el_id el \<noteq> i"
    and "a \<in> {UPDATE_ELEMENT i c, MOVE_ELEMENT i p, RESIZE_ELEMENT i d q, REMOVE_ELEMENT i,
              REORDER_ELEMENT i z}"
  shows "documentReducer now s a =
         \<lparr> document = document s, history = push_entry (history s) (document s), future = [] \<rparr>"
  using assms(2) stale_map_id [OF assms(1)] stale_filter_id [OF assms(1)]
  by (auto simp add: pushHistory_def push_entry_def Let_def)

lemma stale_duplicate:
  assumes "\<forall>el \<in> set (elements (document s)). el_id el \<noteq> i"
  shows "documentReducer now s (DUPLICATE_ELEMENT i) = s"
  using stale_find [OF assms] by simp

lemma ex_redo_state_stale:
  "\<forall>el \<in> set (elements (document ex_redo_state)). el_id el \<noteq> ''ghost''"
  by (simp add: ex_redo_state_def ex_document_def ex_element_def)

section \<open>Actions on an id that matches no element\<close>

text \<open>
  Claim C2 says that an element-targeting action whose id matches no element returns
  the state unchanged.  In a state with one element \<open>a\<close>, an empty history and one
  redo entry, the five actions \<open>UPDATE_ELEMENT\<close>, \<open>MOVE_ELEMENT\<close>, \<open>RESIZE_ELEMENT\<close>,
  \<open>REMOVE_ELEMENT\<close> and \<open>REORDER_ELEMENT\<close> on the id \<open>ghost\<close> leave the document as
  it is but push a history entry and clear the redo stack; only \<open>DUPLICATE_ELEMENT\<close>
  returns the state unchanged.
\<close>

theorem stale_id_pushes_history:
  "documentReducer now ex_redo_state (UPDATE_ELEMENT ''ghost'' ex_changes) = ex_pushed_state \<and>
   documentReducer now ex_redo_state (MOVE_ELEMENT ''ghost'' ex_position) = ex_pushed_state \<and>
   documentReducer now ex_redo_state (RESIZE_ELEMENT ''ghost'' ex_dimensions None) = ex_pushed_state \<and>
   documentReducer now ex_redo_state (REMOVE_ELEMENT ''ghost'') = ex_pushed_state \<and>
   documentReducer now ex_redo_state (REORDER_ELEMENT ''ghost'' 7) = ex_pushed_state \<and>
   documentReducer now ex_redo_state (DUPLICATE_ELEMENT ''ghost'') = ex_redo_state \<and>
   document ex_pushed_state = document ex_redo_state \<and>
   history ex_pushed_state \<noteq> history ex_redo_state \<and>
   future ex_pushed_state \<noteq> future ex_redo_state"
proof -
  have p: "push_entry (history ex_redo_state) (document ex_redo_state) = [document ex_redo_state]"
    by (simp add: push_entry_def slice_last_def ex_redo_state_def)
  have e: "\<And>a. a \<in> {UPDATE_ELEMENT ''ghost'' ex_changes, MOVE_ELEMENT ''ghost'' ex_position,
                     RESIZE_ELEMENT ''ghost'' ex_dimensions None, REMOVE_ELEMENT ''ghost'',
                     REORDER_ELEMENT ''ghost'' 7}
            \<Longrightarrow> documentReducer now ex_redo_state a = ex_pushed_state"
    using stale_id_effect [OF ex_redo_state_stale] 
    by (simp only: p ex_pushed_state_def)
  have d: "documentReducer now ex_redo_state (DUPLICATE_ELEMENT ''ghost'') = ex_redo_state"
    by (rule stale_duplicate [OF ex_redo_state_stale])
  have f: "document ex_pushed_state = document ex_redo_state \<and>
           history ex_pushed_state \<noteq> history ex_redo_state \<and>
           future ex_pushed_state \<noteq> future ex_redo_state"
    by (simp add: ex_pushed_state_def ex_redo_state_def)
  show ?thesis
    using e d f by (simp del: documentReducer.simps)
qed

section \<open>The floor of a resize\<close>

text \<open>
  Claim C6 says that the committed dimensions of a resize are never below 10.  The
  floor \<open>Math.max(10, ...)\<close> is applied to the dimension a handle drives, before the
  aspect correction and before grid snapping, and neither of these is clamped again.
  With a start size of 100 by 50 and the right handle dragged by -95: under aspect
  lock the width is 10 and the height 5; without aspect lock and with a grid of 50 the
  width snaps to 0.  The same start size dragged by +20 under aspect lock gives 120 by
  60, as the claim's example says.
\<close>

theorem resize_floor_broken:
  "resize_dims ex_resize_start DEFAULT_ENGINE_CONFIG (- 95) 0 = (10, 5) \<and>
   resize_dims (ex_resize_start\<lparr> rs_aspectLock := False \<rparr>)
               (DEFAULT_ENGINE_CONFIG\<lparr> snapToGrid := True, gridSize := 50 \<rparr>) (- 95) 0 = (0, 50) \<and>
   resize_dims ex_resize_start DEFAULT_ENGINE_CONFIG 20 0 = (120, 60)"
  by (simp add: resize_dims_def ex_resize_start_def DEFAULT_ENGINE_CONFIG_def Let_def
        starts_with_def Math_round_def)

text \<open>Without aspect lock and without snapping the floor holds.\<close>

lemma resize_floor_plain:
  assumes "10 \<le> rs_elW rs" "10 \<le> rs_elH rs" "\<not> rs_aspectLock rs" "\<not> snapToGrid config"
  shows "10 \<le> fst (resize_dims rs config cx cy) \<and> 10 \<le> snd (resize_dims rs config cx cy)"
  using assms by (simp add: resize_dims_def Let_def max_def)

section \<open>Paint order\<close>

text \<open>The dot-path walk never throws, so neither do the functions built on it.\<close>

lemma get_prop_total:
  "a \<noteq> Undefined \<Longrightarrow> a \<noteq> Null \<Longrightarrow> \<exists>v. get_prop a k = Inr v"
  by (cases a) simp_all

lemma walk_total:
  "\<exists>v. foldl (\<lambda>acc key.
             case acc of
               Inl e \<Rightarrow> Inl e
             | Inr a \<Rightarrow> if a = Undefined \<or> a = Null then Inr Undefined else get_prop a key)
           (Inr a) keys = Inr v"
proof (induction keys arbitrary: a)
  case Nil
  then show ?case by simp
next
  case (Cons k keys)
  show ?case
  proof (cases "a = Undefined \<or> a = Null")
    case True
    then show ?thesis using Cons.IH [of Undefined] by auto
  next
    case False
    then obtain v where "get_prop a k = Inr v"
      using get_prop_total by blast
    then show ?thesis using False Cons.IH [of v] by simp
  qed
qed

lemma getNestedValue_total: "\<exists>v. getNestedValue obj path = Inr v"
  unfolding getNestedValue_def using walk_total by simp

lemma evaluateCondition_total: "\<exists>b. evaluateCondition c data = Inr b"
proof -
  obtain v where "getNestedValue data (cond_field c) = Inr v"
    using getNestedValue_total by blast
  then show ?thesis by (simp add: evaluateCondition_def)
qed

lemma filter_checked_total:
  assumes "\<And>x. \<exists>b. p x = Inr b"
  shows "filter_checked p xs = Inr (filter (\<lambda>x. p x = Inr True) xs)"
proof (induction xs)
  case Nil
  then show ?case by simp
next
  case (Cons x xs)
  obtain b where "p x = Inr b" using assms by blast
  then show ?case using Cons by simp
qed

lemma getOrderedElements_sorted:
  "\<exists>kept. getOrderedElements els ls data = Inr (sort_key (composite_key (layerMap ls)) kept) \<and>
          set kept \<subseteq> set els"
proof -
  let ?p = "\<lambda>el. case condition el of None \<Rightarrow> Inr True | Some c \<Rightarrow> evaluateCondition c data"
  have "\<And>el. \<exists>b. ?p (el :: TemplateElement) = Inr b"
    using evaluateCondition_total by (auto split: option.split)
  from filter_checked_total [of ?p, OF this]
  show ?thesis
    by (auto simp add: getOrderedElements_def Let_def)
qed

lemma composite_key_split:
  "composite_key m a = resolved_order m a * 1000 + zIndex a"
  by (simp add: composite_key_def resolved_order_def)

text \<open>
  Claim C5, amended.  For every list of elements, list of layers and data context,
  \<open>getOrderedElements\<close> returns a list sorted by the ascending composite key
  \<open>layer.order * 1000 + zIndex\<close>, an unresolvable layer reference counting as order 0;
  and any two retained elements whose resolved layers have different orders appear with
  the element of the lower-order layer first, provided the \<open>zIndex\<close> of each is at
  least 0 and below 1000.
\<close>

theorem layer_order_dominates:
  "\<exists>res. getOrderedElements els ls data = Inr res \<and>
     sorted (map (composite_key (layerMap ls)) res) \<and>
     (\<forall>i j. i < length res \<and> j < length res \<and>
            resolved_order (layerMap ls) (res ! i) < resolved_order (layerMap ls) (res ! j) \<and>
            0 \<le> zIndex (res ! i) \<and> zIndex (res ! i) < 1000 \<and>
            0 \<le> zIndex (res ! j) \<and> zIndex (res ! j) < 1000
            \<longrightarrow> i < j)"
proof -
  let ?m = "layerMap ls"
  obtain kept where r: "getOrderedElements els ls data = Inr (sort_key (composite_key ?m) kept)"
    using getOrderedElements_sorted by blast
  let ?res = "sort_key (composite_key ?m) kept"
  have s: "sorted (map (composite_key ?m) ?res)"
    by simp
  have "i < j" if h: "i < length ?res" "j < length ?res"
      "resolved_order ?m (?res ! i) < resolved_order ?m (?res ! j)"
      "0 \<le> zIndex (?res ! i)" "zIndex (?res ! i) < 1000"
      "0 \<le> zIndex (?res ! j)" "zIndex (?res ! j) < 1000" for i j
  proof (rule ccontr)
    assume "\<not> i < j"
    then have "j \<le> i" by simp
    then have "map (composite_key ?m) ?res ! j \<le> map (composite_key ?m) ?res ! i"
      using s h(1) by (simp add: sorted_iff_nth_mono del: sorted_sort_key)
    then have "composite_key ?m (?res ! j) \<le> composite_key ?m (?res ! i)"
      using h(1,2) by simp
    then show False
      using h(3-7) by (simp add: composite_key_split)
  qed
  then show ?thesis
    using r s by blast
qed

theorem layer_order_dominates_witness:
  "getOrderedElements ex_unordered ex_layers (JObj []) =
     Inr [ex_on_layer ''a'' ''back'' 5, ex_on_layer ''b'' ''front'' 0] \<and>
   sorted (map (composite_key (layerMap ex_layers))
             [ex_on_layer ''a'' ''back'' 5, ex_on_layer ''b'' ''front'' 0]) \<and>
   resolved_order (layerMap ex_layers) (ex_on_layer ''a'' ''back'' 5) <
     resolved_order (layerMap ex_layers) (ex_on_layer ''b'' ''front'' 0) \<and>
   0 \<le> zIndex (ex_on_layer ''a'' ''back'' 5) \<and> zIndex (ex_on_layer ''a'' ''back'' 5) < 1000 \<and>
   0 \<le> zIndex (ex_on_layer ''b'' ''front'' 0) \<and> zIndex (ex_on_layer ''b'' ''front'' 0) < 1000"
proof -
  have e: "getOrderedElements ex_unordered ex_layers (JObj []) =
           Inr [ex_on_layer ''a'' ''back'' 5, ex_on_layer ''b'' ''front'' 0]"
    by (simp add: getOrderedElements_def Let_def layerMap_def ex_layers_def ex_on_layer_def
          ex_unordered_def ex_element_def composite_key_def)
  from layer_order_dominates [of ex_unordered ex_layers "JObj []"] e
  have "sorted (map (composite_key (layerMap ex_layers))
                  [ex_on_layer ''a'' ''back'' 5, ex_on_layer ''b'' ''front'' 0])"
    by auto
  moreover have "resolved_order (layerMap ex_layers) (ex_on_layer ''a'' ''back'' 5) <
                 resolved_order (layerMap ex_layers) (ex_on_layer ''b'' ''front'' 0)"
    by (simp add: resolved_order_def layerMap_def ex_layers_def ex_on_layer_def)
  ultimately show ?thesis
    using e by (simp add: ex_on_layer_def)
qed

text \<open>
  Claim C5 as stated bounds the magnitude of \<open>zIndex\<close> only.  With \<open>zIndex\<close> 999
  on the layer of order 0 and \<open>zIndex\<close> -999 on the layer of order 1 the composite
  keys are 999 and 1, and the element of the higher-order layer is painted first.
\<close>

theorem layer_order_magnitude_counterexample:
  "getOrderedElements [ex_on_layer ''a'' ''back'' 999, ex_on_layer ''b'' ''front'' (- 999)]
                      ex_layers (JObj []) =
     Inr [ex_on_layer ''b'' ''front'' (- 999), ex_on_layer ''a'' ''back'' 999] \<and>
   resolved_order (layerMap ex_layers) (ex_on_layer ''a'' ''back'' 999) <
     resolved_order (layerMap ex_layers) (ex_on_layer ''b'' ''front'' (- 999)) \<and>
   \<bar>zIndex (ex_on_layer ''a'' ''back'' 999)\<bar> < 1000 \<and>
   \<bar>zIndex (ex_on_layer ''b'' ''front'' (- 999))\<bar> < 1000"
  by (simp add: getOrderedElements_def Let_def layerMap_def ex_layers_def ex_on_layer_def
        ex_element_def composite_key_def resolved_order_def)

section \<open>Resolving a binding\<close>











section \<open>Applying bindings to an element\<close>






























section \<open>Conditional visibility\<close>








section \<open>Selection reducer: updates without a gesture\<close>

text \<open>
  Claim C10.  When no drag gesture is in progress (\<open>dragState\<close> is null),
  \<open>UPDATE_DRAG\<close> returns the selection state unchanged, and when no resize gesture is
  in progress (\<open>resizeState\<close> is null), \<open>UPDATE_RESIZE\<close> returns it unchanged: an
  update never creates a gesture.
\<close>

theorem update_without_gesture_is_noop:
  "(dragState s = None \<longrightarrow> selectionReducer s (UPDATE_DRAG p) = s) \<and>
   (resizeState s = None \<longrightarrow> selectionReducer s (UPDATE_RESIZE d) = s)"
  by simp

theorem update_without_gesture_is_noop_witness:
  "dragState initialSelection = None \<and>
   selectionReducer initialSelection (UPDATE_DRAG ex_position) = initialSelection \<and>
   resizeState initialSelection = None \<and>
   selectionReducer initialSelection (UPDATE_RESIZE ex_dimensions) = initialSelection"
  using update_without_gesture_is_noop [of initialSelection ex_position ex_dimensions]
  by (simp add: initialSelection_def)

end
